theory Spec2Isabelle
  imports Main "HOL-Library.Sublist"
begin

section \<open>The browser-automation library, as the two scripts use it\<close>

text \<open>
  The two scripts of \<^verbatim>\<open>jules-scratch/verification\<close> are straight-line sequences of
  calls on a browser-automation library. Everything outside the scripts (the driver, the
  browser, the chat application at the other end, the file system) is a parameter of the
  model, the \<open>world\<close>: it decides which call succeeds and what the page shows. A call that
  the library would end with an exception returns that exception as a value, and the
  state records every call made together with its outcome.
\<close>

text \<open>A locator is a deferred reference to elements of the page: building one never fails.\<close>

datatype locator = TestId string | VisibleText string

definition get_by_test_id :: "string \<Rightarrow> locator" where
  "get_by_test_id test_id = TestId test_id"

definition get_by_text :: "string \<Rightarrow> locator" where
  "get_by_text txt = VisibleText txt"

text \<open>
  The exceptions of the library: a navigation failure, an element that does not resolve
  within the action's bounded wait, the two assertion failures (the value assertion
  carries the actual and the expected value), and the failures of the calls around them.
\<close>

datatype error =
    DriverError
  | LaunchError
  | NewPageError
  | NavigationError string
  | ElementNotFound locator
  | NotVisible locator
  | ValueMismatch locator string string
  | ScreenshotError string
  | CloseError

text \<open>
  The calls a script makes, with their arguments as written in the source. An optional
  keyword argument that the source does not pass is \<open>None\<close>. \<open>Start\<close> and \<open>Stop\<close> are
  entering and leaving the \<^verbatim>\<open>with sync_playwright()\<close> block.
\<close>

datatype action =
    Start
  | Launch "bool option"
  | NewPage
  | Goto string
  | Fill locator string
  | ExpectVisible locator
  | Click locator
  | ExpectValue locator string
  | Screenshot string "bool option"
  | Close
  | Stop

text \<open>The content of the page that the scripts read or write: the value of each input.\<close>

type_synonym page_fields = "locator \<Rightarrow> string"

text \<open>
  The world. \<open>present\<close> says whether a locator resolves to an element that can be acted
  on within the action's wait, \<open>shown\<close> whether it becomes visible within the assertion's
  wait; both depend on what the page holds. \<open>on_click\<close> is the application's reaction to
  a click, \<open>rendering\<close> the image of the page (of the whole page when its first argument
  is true, of the viewport otherwise).
\<close>

record world =
  driver_starts :: bool
  launches :: bool
  opens_page :: bool
  reachable :: "string \<Rightarrow> bool"
  page_on_load :: page_fields
  present :: "page_fields \<Rightarrow> locator \<Rightarrow> bool"
  shown :: "page_fields \<Rightarrow> locator \<Rightarrow> bool"
  on_click :: "locator \<Rightarrow> page_fields \<Rightarrow> page_fields"
  writable :: "string \<Rightarrow> bool"
  rendering :: "bool \<Rightarrow> page_fields \<Rightarrow> string"
  closes :: bool

text \<open>
  The state a script runs in: the calls made so far, each with the exception it raised
  (\<open>None\<close> when it returned), the lines printed to standard error, whether the driver
  and the browser are running, the page, and the files on disk (path to content).
\<close>

record state =
  trace :: "(action \<times> error option) list"
  stderr :: "string list"
  driver_running :: bool
  browser_open :: bool
  page :: page_fields
  fs :: "string \<rightharpoonup> string"

type_synonym step = "state \<Rightarrow> error option \<times> state"

definition perform :: "action \<Rightarrow> error option \<Rightarrow> (state \<Rightarrow> state) \<Rightarrow> step" where
  "perform a outcome effect s =
     (case outcome of
        None \<Rightarrow> (None, effect (s\<lparr>trace := trace s @ [(a, None)]\<rparr>))
      | Some e \<Rightarrow> (Some e, s\<lparr>trace := trace s @ [(a, Some e)]\<rparr>))"

definition print_stderr :: "string \<Rightarrow> step" where
  "print_stderr msg s = (None, s\<lparr>stderr := stderr s @ [msg]\<rparr>)"

definition launch :: "world \<Rightarrow> bool option \<Rightarrow> step" where
  "launch w headless =
     perform (Launch headless) (if launches w then None else Some LaunchError)
       (\<lambda>s. s\<lparr>browser_open := True\<rparr>)"

definition new_page :: "world \<Rightarrow> step" where
  "new_page w = perform NewPage (if opens_page w then None else Some NewPageError) (\<lambda>s. s)"

definition goto :: "world \<Rightarrow> string \<Rightarrow> step" where
  "goto w url =
     perform (Goto url) (if reachable w url then None else Some (NavigationError url))
       (\<lambda>s. s\<lparr>page := page_on_load w\<rparr>)"

text \<open>\<open>fill\<close> replaces the content of the element by the text it is given.\<close>

definition fill :: "world \<Rightarrow> locator \<Rightarrow> string \<Rightarrow> step" where
  "fill w loc txt s =
     perform (Fill loc txt)
       (if present w (page s) loc then None else Some (ElementNotFound loc))
       (\<lambda>s'. s'\<lparr>page := (page s')(loc := txt)\<rparr>) s"

definition to_be_visible :: "world \<Rightarrow> locator \<Rightarrow> step" where
  "to_be_visible w loc s =
     perform (ExpectVisible loc)
       (if shown w (page s) loc then None else Some (NotVisible loc))
       (\<lambda>s'. s') s"

definition click :: "world \<Rightarrow> locator \<Rightarrow> step" where
  "click w loc s =
     perform (Click loc)
       (if present w (page s) loc then None else Some (ElementNotFound loc))
       (\<lambda>s'. s'\<lparr>page := on_click w loc (page s')\<rparr>) s"

text \<open>
  The value assertion compares the whole value with the expected string, character by
  character; on a mismatch the exception reports the actual and the expected value.
\<close>

definition to_have_value :: "world \<Rightarrow> locator \<Rightarrow> string \<Rightarrow> step" where
  "to_have_value w loc expected s =
     perform (ExpectValue loc expected)
       (if present w (page s) loc \<and> page s loc = expected then None
        else Some (ValueMismatch loc (page s loc) expected))
       (\<lambda>s'. s') s"

text \<open>
  \<open>screenshot\<close> takes the image of the viewport unless the keyword \<open>full_page\<close> is passed
  as true, and writes it to the path, replacing a file that is already there.
\<close>

definition full_page_of :: "bool option \<Rightarrow> bool" where
  "full_page_of full_page = (case full_page of None \<Rightarrow> False | Some b \<Rightarrow> b)"

definition screenshot :: "world \<Rightarrow> string \<Rightarrow> bool option \<Rightarrow> step" where
  "screenshot w path full_page s =
     perform (Screenshot path full_page)
       (if writable w path then None else Some (ScreenshotError path))
       (\<lambda>s'. s'\<lparr>fs := (fs s')(path \<mapsto> rendering w (full_page_of full_page) (page s'))\<rparr>) s"

definition close :: "world \<Rightarrow> step" where
  "close w =
     perform Close (if closes w then None else Some CloseError)
       (\<lambda>s. s\<lparr>browser_open := False\<rparr>)"

section \<open>Control flow of the scripts\<close>

text \<open>Statements in sequence: an exception ends the sequence where it is raised.\<close>

fun seq :: "step list \<Rightarrow> step" where
  "seq [] s = (None, s)"
| "seq (c # cs) s = (case c s of (None, s') \<Rightarrow> seq cs s' | (Some e, s') \<Rightarrow> (Some e, s'))"

text \<open>
  \<^verbatim>\<open>try: body finally: handler\<close>: the handler runs whether or not the body raised; the
  exception of the body is raised again after it, unless the handler raises its own.
\<close>

definition try_finally :: "step \<Rightarrow> step \<Rightarrow> step" where
  "try_finally body handler s =
     (case body s of
        (r, s') \<Rightarrow>
          (case handler s' of
             (None, s'') \<Rightarrow> (r, s'')
           | (Some e, s'') \<Rightarrow> (Some e, s'')))"

text \<open>
  \<^verbatim>\<open>with sync_playwright() as p: body\<close>: entering starts the driver; leaving, on every path
  out of the body, stops it, and the driver shuts down the browser it launched before it
  exits. The block does not swallow the exception of its body.
\<close>

definition sync_playwright :: "world \<Rightarrow> step \<Rightarrow> step" where
  "sync_playwright w body s =
     (if driver_starts w then
        (case body (s\<lparr>trace := trace s @ [(Start, None)], driver_running := True\<rparr>) of
           (r, s') \<Rightarrow>
             (r, s'\<lparr>trace := trace s' @ [(Stop, None)],
                     driver_running := False, browser_open := False\<rparr>))
      else (Some DriverError, s\<lparr>trace := trace s @ [(Start, Some DriverError)]\<rparr>))"

section \<open>The document-tagging script\<close>

text \<open>
  \<^verbatim>\<open>run_verification\<close> (verify_document_tagging.py, lines 4 to 42), cut at its six
  numbered comments. Steps 4 and 5 are functions of the value that the source binds to
  \<^verbatim>\<open>document_to_select\<close> before them.
\<close>

definition arrange :: "world \<Rightarrow> step" where
  "arrange w =
     seq [print_stderr ''Navigating to http://localhost:3000...'',
          goto w ''http://localhost:3000'',
          print_stderr ''Navigation complete.'']"

definition act_fill :: "world \<Rightarrow> locator \<Rightarrow> step" where
  "act_fill w chat_input =
     seq [print_stderr ''Filling input with '@'...'',
          fill w chat_input ''@'',
          print_stderr ''Fill complete.'']"

definition assert_visible :: "world \<Rightarrow> step" where
  "assert_visible w =
     (let document_tagging = get_by_test_id ''document-tagging'' in
      seq [print_stderr ''Waiting for document tagging component...'',
           to_be_visible w document_tagging,
           print_stderr ''Document tagging component is visible.''])"

definition act_click :: "world \<Rightarrow> string \<Rightarrow> step" where
  "act_click w document_to_select =
     seq [print_stderr (''Clicking on '' @ CHR 0x27 # document_to_select @ CHR 0x27 # ''...''),
          click w (get_by_text document_to_select),
          print_stderr ''Click complete.'']"

definition assert_value :: "world \<Rightarrow> locator \<Rightarrow> string \<Rightarrow> step" where
  "assert_value w chat_input document_to_select =
     seq [print_stderr ''Checking input value...'',
          to_have_value w chat_input ('' @'' @ document_to_select @ '' ''),
          print_stderr ''Input value is correct.'']"

definition take_screenshot :: "world \<Rightarrow> step" where
  "take_screenshot w =
     (let screenshot_path = ''jules-scratch/verification/verification.png'' in
      seq [print_stderr (''Taking screenshot at '' @ screenshot_path @ ''...''),
           screenshot w screenshot_path None,
           print_stderr ''Screenshot taken.''])"

definition tag_document :: "world \<Rightarrow> locator \<Rightarrow> string \<Rightarrow> step" where
  "tag_document w chat_input document_to_select =
     seq [act_click w document_to_select, assert_value w chat_input document_to_select]"

definition run_verification :: "world \<Rightarrow> step" where
  "run_verification w =
     (let chat_input = get_by_test_id ''multimodal-input'' in
      seq [print_stderr ''Starting verification script...'',
           arrange w,
           act_fill w chat_input,
           assert_visible w,
           (let document_to_select = ''Monet'' in tag_document w chat_input document_to_select),
           take_screenshot w,
           print_stderr ''Verification script finished successfully.''])"

text \<open>The script itself (lines 44 to 50).\<close>

definition verify_document_tagging :: "world \<Rightarrow> step" where
  "verify_document_tagging w =
     sync_playwright w
       (seq [launch w (Some True),
             new_page w,
             try_finally (run_verification w) (close w)])"

section \<open>The context-tracker script\<close>

definition verify_context_tracker :: "world \<Rightarrow> step" where
  "verify_context_tracker w =
     sync_playwright w
       (seq [launch w None,
             new_page w,
             goto w ''http://localhost:3000'',
             screenshot w ''jules-scratch/verification/context_tracker.png'' None,
             close w])"

section \<open>Running a script as a process\<close>

text \<open>
  A process starts with nothing called and nothing printed, no driver and no browser, and
  the files that are on disk. It exits with status 0 when the script ran to its end and
  with status 1 when an exception reached the top level.
\<close>

definition fresh :: "(string \<rightharpoonup> string) \<Rightarrow> state" where
  "fresh files =
     \<lparr>trace = [], stderr = [], driver_running = False, browser_open = False,
      page = (\<lambda>_. []), fs = files\<rparr>"

definition exit_status :: "error option \<Rightarrow> nat" where
  "exit_status r = (case r of None \<Rightarrow> 0 | Some e \<Rightarrow> 1)"

text \<open>
  A stub of the chat application, for concrete runs: the server answers at
  \<^verbatim>\<open>http://localhost:3000\<close>; the page exposes the input
  \<^verbatim>\<open>multimodal-input\<close>; while the input holds \<^verbatim>\<open>@\<close> the page shows
  \<^verbatim>\<open>document-tagging\<close> with an entry \<^verbatim>\<open>Monet\<close>, and a click on the entry sets the
  input to the tag framed by two spaces.
\<close>

definition stub_app :: world where
  "stub_app =
     \<lparr>driver_starts = True, launches = True, opens_page = True,
      reachable = (\<lambda>url. url = ''http://localhost:3000''),
      page_on_load = (\<lambda>_. []),
      present = (\<lambda>f loc. loc = TestId ''multimodal-input''
                   \<or> (loc = VisibleText ''Monet'' \<and> f (TestId ''multimodal-input'') = ''@'')),
      shown = (\<lambda>f loc. loc = TestId ''document-tagging'' \<and> f (TestId ''multimodal-input'') = ''@''),
      on_click = (\<lambda>loc f. if loc = VisibleText ''Monet''
                   then f(TestId ''multimodal-input'' := '' @Monet '') else f),
      writable = (\<lambda>_. True),
      rendering = (\<lambda>full f. (if full then ''full:'' else ''viewport:'') @ f (TestId ''multimodal-input'')),
      closes = True\<rparr>"

section \<open>Notions used to state the properties\<close>

text \<open>The calls a step adds to the trace, in order, each with its outcome.\<close>

definition performed :: "step \<Rightarrow> state \<Rightarrow> (action \<times> error option) list" where
  "performed c s = drop (length (trace s)) (trace (snd (c s)))"

text \<open>
  The page of the tagging script after its \<open>fill\<close> returned, and after its \<open>click\<close>
  returned: the page as loaded with the input set to \<^verbatim>\<open>@\<close>, then what the
  application makes of it on the click.
\<close>

definition page_after_fill :: "world \<Rightarrow> page_fields" where
  "page_after_fill w = (page_on_load w)(TestId ''multimodal-input'' := ''@'')"

definition page_after_click :: "world \<Rightarrow> page_fields" where
  "page_after_click w = on_click w (VisibleText ''Monet'') (page_after_fill w)"

text \<open>The six library calls of \<^verbatim>\<open>run_verification\<close>, in the order of the source.\<close>

definition tagging_calls :: "action list" where
  "tagging_calls =
     [Goto ''http://localhost:3000'',
      Fill (TestId ''multimodal-input'') ''@'',
      ExpectVisible (TestId ''document-tagging''),
      Click (VisibleText ''Monet''),
      ExpectValue (TestId ''multimodal-input'') '' @Monet '',
      Screenshot ''jules-scratch/verification/verification.png'' None]"

text \<open>
  A UI action changes the page (\<open>fill\<close>, \<open>click\<close>); an assertion is a call of
  \<^verbatim>\<open>expect(...)\<close>.
\<close>

fun is_ui_action :: "action \<Rightarrow> bool" where
  "is_ui_action (Fill loc txt) = True"
| "is_ui_action (Click loc) = True"
| "is_ui_action a = False"

fun is_assertion :: "action \<Rightarrow> bool" where
  "is_assertion (ExpectVisible loc) = True"
| "is_assertion (ExpectValue loc expected) = True"
| "is_assertion a = False"

text \<open>The files on disk after a script ran as a process of its own.\<close>

definition files_after :: "(world \<Rightarrow> step) \<Rightarrow> world \<Rightarrow> (string \<rightharpoonup> string) \<Rightarrow> (string \<rightharpoonup> string)" where
  "files_after script w files = fs (snd (script w (fresh files)))"

text \<open>
  Variants of the stub: the click leaves the tag without its trailing space; the tagging
  component never shows; the server does not answer; the input holds a draft when the page
  loads (and the tagging component never shows, so that the run ends after the fill).
\<close>

definition stub_no_trailing_space :: world where
  "stub_no_trailing_space =
     stub_app\<lparr>on_click := (\<lambda>loc f. f(TestId ''multimodal-input'' := '' @Monet''))\<rparr>"

definition stub_never_visible :: world where
  "stub_never_visible = stub_app\<lparr>shown := (\<lambda>f loc. False)\<rparr>"

definition stub_unreachable :: world where
  "stub_unreachable = stub_app\<lparr>reachable := (\<lambda>url. False)\<rparr>"

definition stub_prefilled :: world where
  "stub_prefilled = stub_app\<lparr>page_on_load := (\<lambda>loc. ''draft''), shown := (\<lambda>f loc. False)\<rparr>"

text \<open>
  A stub whose list holds every document: any entry can be clicked, and the click sets the
  input to the tag of that entry.
\<close>

definition stub_any_document :: world where
  "stub_any_document =
     stub_app\<lparr>present := (\<lambda>f loc. True),
              on_click := (\<lambda>loc f. case loc of
                  VisibleText d \<Rightarrow> f(TestId ''multimodal-input'' := '' @'' @ d @ '' '')
                | TestId t \<Rightarrow> f)\<rparr>"

section \<open>What a run does, call by call\<close>

lemmas lib_defs = perform_def print_stderr_def launch_def new_page_def goto_def fill_def
  to_be_visible_def click_def to_have_value_def screenshot_def close_def
lemmas tagging_defs = arrange_def act_fill_def assert_visible_def act_click_def assert_value_def
  take_screenshot_def tag_document_def run_verification_def get_by_test_id_def get_by_text_def Let_def

subsection \<open>The body of the tagging script, for any arguments\<close>

lemma body_result:
  "fst (seq [print_stderr m0,
             seq [print_stderr m1, goto w url, print_stderr m2],
             seq [print_stderr m3, fill w inp txt, print_stderr m4],
             seq [print_stderr m5, to_be_visible w dt, print_stderr m6],
             seq [seq [print_stderr m7, click w mo, print_stderr m8],
                  seq [print_stderr m9, to_have_value w inp expected, print_stderr m10]],
             seq [print_stderr m11, screenshot w path fp, print_stderr m12],
             print_stderr m13] s) =
     (if \<not> reachable w url then Some (NavigationError url)
      else if \<not> present w (page_on_load w) inp then Some (ElementNotFound inp)
      else if \<not> shown w ((page_on_load w)(inp := txt)) dt then Some (NotVisible dt)
      else if \<not> present w ((page_on_load w)(inp := txt)) mo then Some (ElementNotFound mo)
      else if \<not> (present w (on_click w mo ((page_on_load w)(inp := txt))) inp
                   \<and> on_click w mo ((page_on_load w)(inp := txt)) inp = expected)
        then Some (ValueMismatch inp (on_click w mo ((page_on_load w)(inp := txt)) inp) expected)
      else if \<not> writable w path then Some (ScreenshotError path)
      else None)"
  by (simp add: lib_defs)

lemma body_trace:
  "trace (snd (seq [print_stderr m0,
             seq [print_stderr m1, goto w url, print_stderr m2],
             seq [print_stderr m3, fill w inp txt, print_stderr m4],
             seq [print_stderr m5, to_be_visible w dt, print_stderr m6],
             seq [seq [print_stderr m7, click w mo, print_stderr m8],
                  seq [print_stderr m9, to_have_value w inp expected, print_stderr m10]],
             seq [print_stderr m11, screenshot w path fp, print_stderr m12],
             print_stderr m13] s)) = trace s @
     (if \<not> reachable w url then [(Goto url, Some (NavigationError url))]
      else (Goto url, None) #
     (if \<not> present w (page_on_load w) inp then [(Fill inp txt, Some (ElementNotFound inp))]
      else (Fill inp txt, None) #
     (if \<not> shown w ((page_on_load w)(inp := txt)) dt then [(ExpectVisible dt, Some (NotVisible dt))]
      else (ExpectVisible dt, None) #
     (if \<not> present w ((page_on_load w)(inp := txt)) mo then [(Click mo, Some (ElementNotFound mo))]
      else (Click mo, None) #
     (if \<not> (present w (on_click w mo ((page_on_load w)(inp := txt))) inp
                   \<and> on_click w mo ((page_on_load w)(inp := txt)) inp = expected)
        then [(ExpectValue inp expected,
               Some (ValueMismatch inp (on_click w mo ((page_on_load w)(inp := txt)) inp) expected))]
      else (ExpectValue inp expected, None) #
     (if \<not> writable w path then [(Screenshot path fp, Some (ScreenshotError path))]
      else [(Screenshot path fp, None)]))))))"
  by (simp add: lib_defs)

lemma body_fs:
  "fs (snd (seq [print_stderr m0,
             seq [print_stderr m1, goto w url, print_stderr m2],
             seq [print_stderr m3, fill w inp txt, print_stderr m4],
             seq [print_stderr m5, to_be_visible w dt, print_stderr m6],
             seq [seq [print_stderr m7, click w mo, print_stderr m8],
                  seq [print_stderr m9, to_have_value w inp expected, print_stderr m10]],
             seq [print_stderr m11, screenshot w path fp, print_stderr m12],
             print_stderr m13] s)) =
     (if reachable w url \<and> present w (page_on_load w) inp
         \<and> shown w ((page_on_load w)(inp := txt)) dt
         \<and> present w ((page_on_load w)(inp := txt)) mo
         \<and> present w (on_click w mo ((page_on_load w)(inp := txt))) inp
         \<and> on_click w mo ((page_on_load w)(inp := txt)) inp = expected
         \<and> writable w path
      then (fs s)(path \<mapsto> rendering w (full_page_of fp) (on_click w mo ((page_on_load w)(inp := txt))))
      else fs s)"
  by (simp add: lib_defs)

subsection \<open>The function \<open>run_verification\<close>\<close>

lemma run_verification_result:
  "fst (run_verification w s) =
     (if \<not> reachable w ''http://localhost:3000'' then Some (NavigationError ''http://localhost:3000'')
      else if \<not> present w (page_on_load w) (TestId ''multimodal-input'')
        then Some (ElementNotFound (TestId ''multimodal-input''))
      else if \<not> shown w (page_after_fill w) (TestId ''document-tagging'')
        then Some (NotVisible (TestId ''document-tagging''))
      else if \<not> present w (page_after_fill w) (VisibleText ''Monet'')
        then Some (ElementNotFound (VisibleText ''Monet''))
      else if \<not> (present w (page_after_click w) (TestId ''multimodal-input'')
                   \<and> page_after_click w (TestId ''multimodal-input'') = '' @Monet '')
        then Some (ValueMismatch (TestId ''multimodal-input'')
                     (page_after_click w (TestId ''multimodal-input'')) '' @Monet '')
      else if \<not> writable w ''jules-scratch/verification/verification.png''
        then Some (ScreenshotError ''jules-scratch/verification/verification.png'')
      else None)"
  unfolding tagging_defs page_after_fill_def page_after_click_def append.simps
  by (rule body_result)

lemma run_verification_trace:
  "trace (snd (run_verification w s)) = trace s @
     (if \<not> reachable w ''http://localhost:3000''
        then [(Goto ''http://localhost:3000'', Some (NavigationError ''http://localhost:3000''))]
      else (Goto ''http://localhost:3000'', None) #
     (if \<not> present w (page_on_load w) (TestId ''multimodal-input'')
        then [(Fill (TestId ''multimodal-input'') ''@'', Some (ElementNotFound (TestId ''multimodal-input'')))]
      else (Fill (TestId ''multimodal-input'') ''@'', None) #
     (if \<not> shown w (page_after_fill w) (TestId ''document-tagging'')
        then [(ExpectVisible (TestId ''document-tagging''), Some (NotVisible (TestId ''document-tagging'')))]
      else (ExpectVisible (TestId ''document-tagging''), None) #
     (if \<not> present w (page_after_fill w) (VisibleText ''Monet'')
        then [(Click (VisibleText ''Monet''), Some (ElementNotFound (VisibleText ''Monet'')))]
      else (Click (VisibleText ''Monet''), None) #
     (if \<not> (present w (page_after_click w) (TestId ''multimodal-input'')
                   \<and> page_after_click w (TestId ''multimodal-input'') = '' @Monet '')
        then [(ExpectValue (TestId ''multimodal-input'') '' @Monet '',
               Some (ValueMismatch (TestId ''multimodal-input'')
                     (page_after_click w (TestId ''multimodal-input'')) '' @Monet ''))]
      else (ExpectValue (TestId ''multimodal-input'') '' @Monet '', None) #
     (if \<not> writable w ''jules-scratch/verification/verification.png''
        then [(Screenshot ''jules-scratch/verification/verification.png'' None,
               Some (ScreenshotError ''jules-scratch/verification/verification.png''))]
      else [(Screenshot ''jules-scratch/verification/verification.png'' None, None)]))))))"
  unfolding tagging_defs page_after_fill_def page_after_click_def append.simps
  by (rule body_trace)

lemma run_verification_fs:
  "fs (snd (run_verification w s)) =
     (if reachable w ''http://localhost:3000''
         \<and> present w (page_on_load w) (TestId ''multimodal-input'')
         \<and> shown w (page_after_fill w) (TestId ''document-tagging'')
         \<and> present w (page_after_fill w) (VisibleText ''Monet'')
         \<and> present w (page_after_click w) (TestId ''multimodal-input'')
         \<and> page_after_click w (TestId ''multimodal-input'') = '' @Monet ''
         \<and> writable w ''jules-scratch/verification/verification.png''
      then (fs s)(''jules-scratch/verification/verification.png''
                    \<mapsto> rendering w (full_page_of None) (page_after_click w))
      else fs s)"
  unfolding tagging_defs page_after_fill_def page_after_click_def append.simps
  by (rule body_fs)

lemma drop_own_length: "drop (length xs) (xs @ ys) = ys"
  by simp

lemma performed_run_verification:
  "performed (run_verification w) s =
     (if \<not> reachable w ''http://localhost:3000''
        then [(Goto ''http://localhost:3000'', Some (NavigationError ''http://localhost:3000''))]
      else (Goto ''http://localhost:3000'', None) #
     (if \<not> present w (page_on_load w) (TestId ''multimodal-input'')
        then [(Fill (TestId ''multimodal-input'') ''@'', Some (ElementNotFound (TestId ''multimodal-input'')))]
      else (Fill (TestId ''multimodal-input'') ''@'', None) #
     (if \<not> shown w (page_after_fill w) (TestId ''document-tagging'')
        then [(ExpectVisible (TestId ''document-tagging''), Some (NotVisible (TestId ''document-tagging'')))]
      else (ExpectVisible (TestId ''document-tagging''), None) #
     (if \<not> present w (page_after_fill w) (VisibleText ''Monet'')
        then [(Click (VisibleText ''Monet''), Some (ElementNotFound (VisibleText ''Monet'')))]
      else (Click (VisibleText ''Monet''), None) #
     (if \<not> (present w (page_after_click w) (TestId ''multimodal-input'')
                   \<and> page_after_click w (TestId ''multimodal-input'') = '' @Monet '')
        then [(ExpectValue (TestId ''multimodal-input'') '' @Monet '',
               Some (ValueMismatch (TestId ''multimodal-input'')
                     (page_after_click w (TestId ''multimodal-input'')) '' @Monet ''))]
      else (ExpectValue (TestId ''multimodal-input'') '' @Monet '', None) #
     (if \<not> writable w ''jules-scratch/verification/verification.png''
        then [(Screenshot ''jules-scratch/verification/verification.png'' None,
               Some (ScreenshotError ''jules-scratch/verification/verification.png''))]
      else [(Screenshot ''jules-scratch/verification/verification.png'' None, None)]))))))"
  unfolding performed_def run_verification_trace by (rule drop_own_length)

subsection \<open>The two scripts\<close>

lemma with_launch_result:
  assumes "\<And>S. fst (B S) = r"
  shows "fst (sync_playwright w (seq [launch w h, new_page w, try_finally B (close w)]) s) =
     (if \<not> driver_starts w then Some DriverError
      else if \<not> launches w then Some LaunchError
      else if \<not> opens_page w then Some NewPageError
      else if \<not> closes w then Some CloseError
      else r)"
  by (simp add: sync_playwright_def try_finally_def lib_defs case_prod_unfold assms split: option.split)

lemma with_launch_trace:
  assumes "\<And>S. trace (snd (B S)) = trace S @ X"
  shows "trace (snd (sync_playwright w (seq [launch w h, new_page w, try_finally B (close w)]) s)) =
     trace s @
     (if \<not> driver_starts w then [(Start, Some DriverError)]
      else if \<not> launches w then [(Start, None), (Launch h, Some LaunchError), (Stop, None)]
      else if \<not> opens_page w
        then [(Start, None), (Launch h, None), (NewPage, Some NewPageError), (Stop, None)]
      else [(Start, None), (Launch h, None), (NewPage, None)] @ X @
           [(Close, if closes w then None else Some CloseError), (Stop, None)])"
  by (simp add: sync_playwright_def try_finally_def lib_defs case_prod_unfold assms split: option.split)

lemma with_launch_fs:
  assumes "\<And>S. fs (snd (B S)) = g (fs S)"
  shows "fs (snd (sync_playwright w (seq [launch w h, new_page w, try_finally B (close w)]) s)) =
     (if driver_starts w \<and> launches w \<and> opens_page w then g (fs s) else fs s)"
  by (simp add: sync_playwright_def try_finally_def lib_defs case_prod_unfold assms split: option.split)


lemma tracker_result:
  "fst (sync_playwright w (seq [launch w h, new_page w, goto w url, screenshot w path fp, close w]) s) =
     (if \<not> driver_starts w then Some DriverError
      else if \<not> launches w then Some LaunchError
      else if \<not> opens_page w then Some NewPageError
      else if \<not> reachable w url then Some (NavigationError url)
      else if \<not> writable w path then Some (ScreenshotError path)
      else if \<not> closes w then Some CloseError
      else None)"
  by (simp add: sync_playwright_def lib_defs)

lemma tracker_trace:
  "trace (snd (sync_playwright w (seq [launch w h, new_page w, goto w url, screenshot w path fp, close w]) s)) =
     trace s @
     (if \<not> driver_starts w then [(Start, Some DriverError)]
      else (Start, None) #
     (if \<not> launches w then [(Launch h, Some LaunchError), (Stop, None)]
      else (Launch h, None) #
     (if \<not> opens_page w then [(NewPage, Some NewPageError), (Stop, None)]
      else (NewPage, None) #
     (if \<not> reachable w url then [(Goto url, Some (NavigationError url)), (Stop, None)]
      else (Goto url, None) #
     (if \<not> writable w path then [(Screenshot path fp, Some (ScreenshotError path)), (Stop, None)]
      else (Screenshot path fp, None) #
     (if \<not> closes w then [(Close, Some CloseError), (Stop, None)]
      else [(Close, None), (Stop, None)]))))))"
  by (simp add: sync_playwright_def lib_defs)

lemma tracker_fs:
  "fs (snd (sync_playwright w (seq [launch w h, new_page w, goto w url, screenshot w path fp, close w]) s)) =
     (if driver_starts w \<and> launches w \<and> opens_page w \<and> reachable w url \<and> writable w path
      then (fs s)(path \<mapsto> rendering w (full_page_of fp) (page_on_load w))
      else fs s)"
  by (simp add: sync_playwright_def lib_defs)


lemma verify_document_tagging_result:
  "fst (verify_document_tagging w s) =
     (if \<not> driver_starts w then Some DriverError
      else if \<not> launches w then Some LaunchError
      else if \<not> opens_page w then Some NewPageError
      else if \<not> closes w then Some CloseError
      else fst (run_verification w s))"
  unfolding verify_document_tagging_def
  by (rule with_launch_result) (simp only: run_verification_result)

lemma verify_document_tagging_performed:
  "performed (verify_document_tagging w) s =
     (if \<not> driver_starts w then [(Start, Some DriverError)]
      else if \<not> launches w then [(Start, None), (Launch (Some True), Some LaunchError), (Stop, None)]
      else if \<not> opens_page w
        then [(Start, None), (Launch (Some True), None), (NewPage, Some NewPageError), (Stop, None)]
      else [(Start, None), (Launch (Some True), None), (NewPage, None)]
           @ performed (run_verification w) s
           @ [(Close, if closes w then None else Some CloseError), (Stop, None)])"
proof -
  have "\<And>S. trace (snd (run_verification w S)) = trace S @ performed (run_verification w) s"
    by (simp only: run_verification_trace performed_run_verification)
  note b = with_launch_trace [of "run_verification w" "performed (run_verification w) s" w "Some True" s,
    OF this, folded verify_document_tagging_def]
  show ?thesis
    unfolding performed_def [of "verify_document_tagging w"] b by (rule drop_own_length)
qed

lemma verify_document_tagging_fs:
  "fs (snd (verify_document_tagging w s)) =
     (if driver_starts w \<and> launches w \<and> opens_page w then fs (snd (run_verification w s)) else fs s)"
proof -
  let ?g = "\<lambda>f. fs (snd (run_verification w (s\<lparr>fs := f\<rparr>)))"
  have "\<And>S. fs (snd (run_verification w S)) = ?g (fs S)"
    by (simp only: run_verification_fs) simp
  from with_launch_fs [of "run_verification w" ?g w "Some True" s, OF this]
  show ?thesis unfolding verify_document_tagging_def by simp
qed

lemma verify_context_tracker_result:
  "fst (verify_context_tracker w s) =
     (if \<not> driver_starts w then Some DriverError
      else if \<not> launches w then Some LaunchError
      else if \<not> opens_page w then Some NewPageError
      else if \<not> reachable w ''http://localhost:3000'' then Some (NavigationError ''http://localhost:3000'')
      else if \<not> writable w ''jules-scratch/verification/context_tracker.png''
        then Some (ScreenshotError ''jules-scratch/verification/context_tracker.png'')
      else if \<not> closes w then Some CloseError
      else None)"
  unfolding verify_context_tracker_def by (rule tracker_result)

lemma verify_context_tracker_performed:
  "performed (verify_context_tracker w) s =
     (if \<not> driver_starts w then [(Start, Some DriverError)]
      else (Start, None) #
     (if \<not> launches w then [(Launch None, Some LaunchError), (Stop, None)]
      else (Launch None, None) #
     (if \<not> opens_page w then [(NewPage, Some NewPageError), (Stop, None)]
      else (NewPage, None) #
     (if \<not> reachable w ''http://localhost:3000''
        then [(Goto ''http://localhost:3000'', Some (NavigationError ''http://localhost:3000'')), (Stop, None)]
      else (Goto ''http://localhost:3000'', None) #
     (if \<not> writable w ''jules-scratch/verification/context_tracker.png''
        then [(Screenshot ''jules-scratch/verification/context_tracker.png'' None,
               Some (ScreenshotError ''jules-scratch/verification/context_tracker.png'')), (Stop, None)]
      else (Screenshot ''jules-scratch/verification/context_tracker.png'' None, None) #
     (if \<not> closes w then [(Close, Some CloseError), (Stop, None)]
      else [(Close, None), (Stop, None)]))))))"
  unfolding performed_def verify_context_tracker_def tracker_trace by (rule drop_own_length)

lemma verify_context_tracker_fs:
  "fs (snd (verify_context_tracker w s)) =
     (if driver_starts w \<and> launches w \<and> opens_page w \<and> reachable w ''http://localhost:3000''
         \<and> writable w ''jules-scratch/verification/context_tracker.png''
      then (fs s)(''jules-scratch/verification/context_tracker.png''
                    \<mapsto> rendering w (full_page_of None) (page_on_load w))
      else fs s)"
  unfolding verify_context_tracker_def by (rule tracker_fs)




lemma rv_prefix: "prefix (map fst (performed (run_verification w) s)) tagging_calls"
  by (simp add: performed_run_verification tagging_calls_def)

lemma rv_butlast: "\<forall>x \<in> set (butlast (performed (run_verification w) s)). snd x = None"
  by (simp add: performed_run_verification)

lemma rv_last: "fst (run_verification w s) = snd (last (performed (run_verification w) s))"
  by (simp add: performed_run_verification run_verification_result)


lemmas stub_defs = stub_app_def stub_no_trailing_space_def stub_never_visible_def
  stub_unreachable_def stub_prefilled_def page_after_fill_def page_after_click_def


section \<open>The claims\<close>

text \<open>
  C1. In the document-tagging script, once the element with the text \<^verbatim>\<open>Monet\<close> has been
  clicked, the next call asserts that the value of the chat input is exactly the string
  of a space, \<^verbatim>\<open>@Monet\<close> and a space. When the value after the click is any other
  string, the assertion raises the mismatch with the actual and the expected value, no
  further call is made by \<^verbatim>\<open>run_verification\<close>, and the process exits with status 1;
  a run of \<^verbatim>\<open>run_verification\<close> that raised nothing saw exactly that value.
\<close>

theorem value_assertion_exact:
  assumes "reachable w ''http://localhost:3000''"
    and "present w (page_on_load w) (TestId ''multimodal-input'')"
    and "shown w (page_after_fill w) (TestId ''document-tagging'')"
    and "present w (page_after_fill w) (VisibleText ''Monet'')"
  shows "map fst (take 5 (performed (run_verification w) s)) =
           [Goto ''http://localhost:3000'', Fill (TestId ''multimodal-input'') ''@'',
            ExpectVisible (TestId ''document-tagging''), Click (VisibleText ''Monet''),
            ExpectValue (TestId ''multimodal-input'') '' @Monet '']
       \<and> (page_after_click w (TestId ''multimodal-input'') \<noteq> '' @Monet '' \<longrightarrow>
            fst (run_verification w s) =
              Some (ValueMismatch (TestId ''multimodal-input'')
                      (page_after_click w (TestId ''multimodal-input'')) '' @Monet '')
            \<and> length (performed (run_verification w) s) = 5
            \<and> exit_status (fst (verify_document_tagging w s)) = 1)
       \<and> (fst (run_verification w s) = None \<longrightarrow>
            page_after_click w (TestId ''multimodal-input'') = '' @Monet '')"
  using assms
  by (simp add: performed_run_verification run_verification_result
        verify_document_tagging_result exit_status_def)

theorem value_assertion_exact_witness:
  "reachable stub_no_trailing_space ''http://localhost:3000''
   \<and> present stub_no_trailing_space (page_on_load stub_no_trailing_space) (TestId ''multimodal-input'')
   \<and> shown stub_no_trailing_space (page_after_fill stub_no_trailing_space) (TestId ''document-tagging'')
   \<and> present stub_no_trailing_space (page_after_fill stub_no_trailing_space) (VisibleText ''Monet'')
   \<and> page_after_click stub_no_trailing_space (TestId ''multimodal-input'') = '' @Monet''
   \<and> fst (run_verification stub_no_trailing_space (fresh Map.empty)) =
        Some (ValueMismatch (TestId ''multimodal-input'') '' @Monet'' '' @Monet '')
   \<and> exit_status (fst (verify_document_tagging stub_no_trailing_space (fresh Map.empty))) = 1"
proof -
  have h1: "reachable stub_no_trailing_space ''http://localhost:3000''"
    and h2: "present stub_no_trailing_space (page_on_load stub_no_trailing_space) (TestId ''multimodal-input'')"
    and h3: "shown stub_no_trailing_space (page_after_fill stub_no_trailing_space) (TestId ''document-tagging'')"
    and h4: "present stub_no_trailing_space (page_after_fill stub_no_trailing_space) (VisibleText ''Monet'')"
    and h5: "page_after_click stub_no_trailing_space (TestId ''multimodal-input'') = '' @Monet''"
    by (simp_all add: stub_defs)
  from value_assertion_exact [OF h1 h2 h3 h4, of "fresh Map.empty"] h1 h2 h3 h4 h5
  show ?thesis by simp
qed



text \<open>
  C3. The calls of \<^verbatim>\<open>run_verification\<close> are an initial segment of its six calls in the
  order of the source; every call but the last one made has returned, and the result of
  the run is the outcome of the last call made, so a call that raises is the last one.
  In particular, when the element \<^verbatim>\<open>document-tagging\<close> does not become visible, the run
  ends with that assertion's exception, the script exits with status 1, and neither the
  click on \<^verbatim>\<open>Monet\<close>, nor the value assertion, nor the screenshot is performed.
\<close>

theorem six_steps_in_order:
  "prefix (map fst (performed (run_verification w) s)) tagging_calls
   \<and> (\<forall>x \<in> set (butlast (performed (run_verification w) s)). snd x = None)
   \<and> fst (run_verification w s) = snd (last (performed (run_verification w) s))
   \<and> (reachable w ''http://localhost:3000''
        \<and> present w (page_on_load w) (TestId ''multimodal-input'')
        \<and> \<not> shown w (page_after_fill w) (TestId ''document-tagging'') \<longrightarrow>
      fst (run_verification w s) = Some (NotVisible (TestId ''document-tagging''))
      \<and> map fst (performed (run_verification w) s) =
          [Goto ''http://localhost:3000'', Fill (TestId ''multimodal-input'') ''@'',
           ExpectVisible (TestId ''document-tagging'')]
      \<and> exit_status (fst (verify_document_tagging w s)) = 1
      \<and> Click (VisibleText ''Monet'') \<notin> fst ` set (performed (verify_document_tagging w) s)
      \<and> ExpectValue (TestId ''multimodal-input'') '' @Monet ''
           \<notin> fst ` set (performed (verify_document_tagging w) s)
      \<and> Screenshot ''jules-scratch/verification/verification.png'' None
           \<notin> fst ` set (performed (verify_document_tagging w) s))"
proof -
  have "reachable w ''http://localhost:3000''
        \<and> present w (page_on_load w) (TestId ''multimodal-input'')
        \<and> \<not> shown w (page_after_fill w) (TestId ''document-tagging'') \<longrightarrow>
      fst (run_verification w s) = Some (NotVisible (TestId ''document-tagging''))
      \<and> map fst (performed (run_verification w) s) =
          [Goto ''http://localhost:3000'', Fill (TestId ''multimodal-input'') ''@'',
           ExpectVisible (TestId ''document-tagging'')]
      \<and> exit_status (fst (verify_document_tagging w s)) = 1
      \<and> Click (VisibleText ''Monet'') \<notin> fst ` set (performed (verify_document_tagging w) s)
      \<and> ExpectValue (TestId ''multimodal-input'') '' @Monet ''
           \<notin> fst ` set (performed (verify_document_tagging w) s)
      \<and> Screenshot ''jules-scratch/verification/verification.png'' None
           \<notin> fst ` set (performed (verify_document_tagging w) s)"
    by (simp add: verify_document_tagging_performed verify_document_tagging_result
          performed_run_verification run_verification_result exit_status_def)
  with rv_prefix [of w s] rv_butlast [of w s] rv_last [of w s] show ?thesis by blast
qed

theorem six_steps_in_order_witness:
  "reachable stub_never_visible ''http://localhost:3000''
   \<and> present stub_never_visible (page_on_load stub_never_visible) (TestId ''multimodal-input'')
   \<and> \<not> shown stub_never_visible (page_after_fill stub_never_visible) (TestId ''document-tagging'')
   \<and> fst (run_verification stub_never_visible (fresh Map.empty)) =
        Some (NotVisible (TestId ''document-tagging''))
   \<and> map fst (performed (run_verification stub_never_visible) (fresh Map.empty)) =
        [Goto ''http://localhost:3000'', Fill (TestId ''multimodal-input'') ''@'',
         ExpectVisible (TestId ''document-tagging'')]
   \<and> exit_status (fst (verify_document_tagging stub_never_visible (fresh Map.empty))) = 1"
proof -
  have h: "reachable stub_never_visible ''http://localhost:3000''
     \<and> present stub_never_visible (page_on_load stub_never_visible) (TestId ''multimodal-input'')
     \<and> \<not> shown stub_never_visible (page_after_fill stub_never_visible) (TestId ''document-tagging'')"
    by (simp add: stub_defs)
  from six_steps_in_order [of stub_never_visible "fresh Map.empty",
      THEN conjunct2, THEN conjunct2, THEN conjunct2] h
  show ?thesis by simp
qed

text \<open>
  C4 as stated fails for the context-tracker script: in the stub world the script runs to
  its end, and the calls it made are start, launch, new page, goto, screenshot, close and
  stop; none of them is a UI action and none is an assertion.
\<close>

theorem context_tracker_no_assertion_counterexample:
  "fst (verify_context_tracker stub_app (fresh Map.empty)) = None
   \<and> map fst (performed (verify_context_tracker stub_app) (fresh Map.empty)) =
       [Start, Launch None, NewPage, Goto ''http://localhost:3000'',
        Screenshot ''jules-scratch/verification/context_tracker.png'' None, Close, Stop]
   \<and> filter is_ui_action (map fst (performed (verify_context_tracker stub_app) (fresh Map.empty))) = []
   \<and> filter is_assertion (map fst (performed (verify_context_tracker stub_app) (fresh Map.empty))) = []"
  by (simp add: verify_context_tracker_result verify_context_tracker_performed stub_app_def)

text \<open>
  C4, amended. The context-tracker script never performs a UI action or an assertion: it
  navigates and takes its screenshot. The tagging script takes its screenshot only after
  the fill, the visibility assertion, the click and the value assertion have all been
  performed and have returned, in this order.
\<close>

theorem only_tagging_acts_and_asserts:
  "filter is_ui_action (map fst (performed (verify_context_tracker w) s)) = []
   \<and> filter is_assertion (map fst (performed (verify_context_tracker w) s)) = []
   \<and> (Screenshot ''jules-scratch/verification/verification.png'' None
         \<in> fst ` set (performed (verify_document_tagging w) s) \<longrightarrow>
       prefix [(Start, None), (Launch (Some True), None), (NewPage, None),
               (Goto ''http://localhost:3000'', None),
               (Fill (TestId ''multimodal-input'') ''@'', None),
               (ExpectVisible (TestId ''document-tagging''), None),
               (Click (VisibleText ''Monet''), None),
               (ExpectValue (TestId ''multimodal-input'') '' @Monet '', None)]
              (performed (verify_document_tagging w) s))"
  by (simp add: verify_context_tracker_performed verify_document_tagging_performed
        performed_run_verification)

theorem only_tagging_acts_and_asserts_witness:
  "Screenshot ''jules-scratch/verification/verification.png'' None
     \<in> fst ` set (performed (verify_document_tagging stub_app) (fresh Map.empty))
   \<and> prefix [(Start, None), (Launch (Some True), None), (NewPage, None),
             (Goto ''http://localhost:3000'', None),
             (Fill (TestId ''multimodal-input'') ''@'', None),
             (ExpectVisible (TestId ''document-tagging''), None),
             (Click (VisibleText ''Monet''), None),
             (ExpectValue (TestId ''multimodal-input'') '' @Monet '', None)]
            (performed (verify_document_tagging stub_app) (fresh Map.empty))"
proof -
  have "Screenshot ''jules-scratch/verification/verification.png'' None
     \<in> fst ` set (performed (verify_document_tagging stub_app) (fresh Map.empty))"
    by (simp add: verify_document_tagging_performed performed_run_verification stub_defs)
  with only_tagging_acts_and_asserts [of stub_app "fresh Map.empty"] show ?thesis by blast
qed

text \<open>
  C5 as stated fails: the context-tracker script calls \<^verbatim>\<open>page.screenshot\<close> with the
  path only, so the keyword \<^verbatim>\<open>full_page\<close> keeps its default, false, and the file holds
  the image of the viewport.
\<close>

theorem viewport_screenshot_counterexample:
  "(Screenshot ''jules-scratch/verification/context_tracker.png'' None, None)
     \<in> set (performed (verify_context_tracker stub_app) (fresh Map.empty))
   \<and> full_page_of None = False
   \<and> fs (snd (verify_context_tracker stub_app (fresh Map.empty)))
        ''jules-scratch/verification/context_tracker.png'' = Some ''viewport:''"
  by (simp add: verify_context_tracker_performed verify_context_tracker_fs stub_app_def
       full_page_of_def fresh_def)

text \<open>
  C5, amended. Every screenshot either script takes is taken with the path as the only
  argument (no \<^verbatim>\<open>full_page\<close>, so it is the image of the viewport, not of the full
  page), and it is written to the fixed path of the script.
\<close>

theorem screenshots_default_options:
  "(\<forall>p fp. Screenshot p fp \<in> fst ` set (performed (verify_context_tracker w) s) \<longrightarrow>
       p = ''jules-scratch/verification/context_tracker.png'' \<and> fp = None \<and> \<not> full_page_of fp)
   \<and> (\<forall>p fp. Screenshot p fp \<in> fst ` set (performed (verify_document_tagging w) s) \<longrightarrow>
       p = ''jules-scratch/verification/verification.png'' \<and> fp = None \<and> \<not> full_page_of fp)
   \<and> ((Screenshot ''jules-scratch/verification/context_tracker.png'' None, None)
         \<in> set (performed (verify_context_tracker w) s) \<longrightarrow>
       fs (snd (verify_context_tracker w s)) ''jules-scratch/verification/context_tracker.png''
         = Some (rendering w False (page_on_load w)))
   \<and> ((Screenshot ''jules-scratch/verification/verification.png'' None, None)
         \<in> set (performed (verify_document_tagging w) s) \<longrightarrow>
       fs (snd (verify_document_tagging w s)) ''jules-scratch/verification/verification.png''
         = Some (rendering w False (page_after_click w)))"
proof -
  have a: "\<forall>p fp. Screenshot p fp \<in> fst ` set (performed (verify_context_tracker w) s) \<longrightarrow>
       p = ''jules-scratch/verification/context_tracker.png'' \<and> fp = None \<and> \<not> full_page_of fp"
    by (simp add: verify_context_tracker_performed full_page_of_def)
  have b: "\<forall>p fp. Screenshot p fp \<in> fst ` set (performed (verify_document_tagging w) s) \<longrightarrow>
       p = ''jules-scratch/verification/verification.png'' \<and> fp = None \<and> \<not> full_page_of fp"
    by (simp add: verify_document_tagging_performed performed_run_verification full_page_of_def)
  have c: "(Screenshot ''jules-scratch/verification/context_tracker.png'' None, None)
         \<in> set (performed (verify_context_tracker w) s) \<longrightarrow>
       fs (snd (verify_context_tracker w s)) ''jules-scratch/verification/context_tracker.png''
         = Some (rendering w False (page_on_load w))"
    by (simp add: verify_context_tracker_performed verify_context_tracker_fs full_page_of_def)
  have d: "(Screenshot ''jules-scratch/verification/verification.png'' None, None)
         \<in> set (performed (verify_document_tagging w) s) \<longrightarrow>
       fs (snd (verify_document_tagging w s)) ''jules-scratch/verification/verification.png''
         = Some (rendering w False (page_after_click w))"
    by (simp add: verify_document_tagging_performed performed_run_verification
          verify_document_tagging_fs run_verification_fs full_page_of_def)
  from a b c d show ?thesis by blast
qed

theorem screenshots_default_options_witness:
  "(Screenshot ''jules-scratch/verification/verification.png'' None, None)
     \<in> set (performed (verify_document_tagging stub_app) (fresh Map.empty))
   \<and> fs (snd (verify_document_tagging stub_app (fresh Map.empty)))
       ''jules-scratch/verification/verification.png'' = Some ''viewport: @Monet ''"
proof -
  have h: "(Screenshot ''jules-scratch/verification/verification.png'' None, None)
     \<in> set (performed (verify_document_tagging stub_app) (fresh Map.empty))"
    by (simp add: verify_document_tagging_performed performed_run_verification stub_defs)
  have r: "rendering stub_app False (page_after_click stub_app) = ''viewport: @Monet ''"
    by (simp add: stub_defs)
  from screenshots_default_options [of stub_app "fresh Map.empty",
      THEN conjunct2, THEN conjunct2, THEN conjunct2] h r
  show ?thesis by simp
qed

text \<open>
  C6. Whatever the world does and whatever state the process starts in, every call of
  either script is one of a fixed list of calls with literal arguments: the only URL is
  \<^verbatim>\<open>http://localhost:3000\<close>, and the selectors and file paths are the literals of the
  source. Both scripts navigate to that URL as soon as driver, browser and page are there.
  The scripts have no input besides the world they drive: no flag, no environment
  variable, no configuration.
\<close>

theorem hardcoded_arguments:
  "fst ` set (performed (verify_context_tracker w) s) \<subseteq>
     {Start, Launch None, NewPage, Goto ''http://localhost:3000'',
      Screenshot ''jules-scratch/verification/context_tracker.png'' None, Close, Stop}
   \<and> fst ` set (performed (verify_document_tagging w) s) \<subseteq>
     {Start, Launch (Some True), NewPage, Goto ''http://localhost:3000'',
      Fill (TestId ''multimodal-input'') ''@'', ExpectVisible (TestId ''document-tagging''),
      Click (VisibleText ''Monet''), ExpectValue (TestId ''multimodal-input'') '' @Monet '',
      Screenshot ''jules-scratch/verification/verification.png'' None, Close, Stop}
   \<and> (driver_starts w \<and> launches w \<and> opens_page w \<longrightarrow>
        Goto ''http://localhost:3000'' \<in> fst ` set (performed (verify_context_tracker w) s)
        \<and> Goto ''http://localhost:3000'' \<in> fst ` set (performed (verify_document_tagging w) s))"
proof -
  have a: "fst ` set (performed (verify_context_tracker w) s) \<subseteq>
     {Start, Launch None, NewPage, Goto ''http://localhost:3000'',
      Screenshot ''jules-scratch/verification/context_tracker.png'' None, Close, Stop}"
    by (simp add: verify_context_tracker_performed)
  have b: "fst ` set (performed (verify_document_tagging w) s) \<subseteq>
     {Start, Launch (Some True), NewPage, Goto ''http://localhost:3000'',
      Fill (TestId ''multimodal-input'') ''@'', ExpectVisible (TestId ''document-tagging''),
      Click (VisibleText ''Monet''), ExpectValue (TestId ''multimodal-input'') '' @Monet '',
      Screenshot ''jules-scratch/verification/verification.png'' None, Close, Stop}"
    by (simp add: verify_document_tagging_performed performed_run_verification)
  have c: "driver_starts w \<and> launches w \<and> opens_page w \<longrightarrow>
        Goto ''http://localhost:3000'' \<in> fst ` set (performed (verify_context_tracker w) s)
        \<and> Goto ''http://localhost:3000'' \<in> fst ` set (performed (verify_document_tagging w) s)"
    by (simp add: verify_context_tracker_performed verify_document_tagging_performed
          performed_run_verification)
  from a b c show ?thesis by blast
qed

theorem hardcoded_arguments_witness:
  "driver_starts stub_unreachable \<and> launches stub_unreachable \<and> opens_page stub_unreachable
   \<and> Goto ''http://localhost:3000''
       \<in> fst ` set (performed (verify_context_tracker stub_unreachable) (fresh Map.empty))
   \<and> Goto ''http://localhost:3000''
       \<in> fst ` set (performed (verify_document_tagging stub_unreachable) (fresh Map.empty))"
proof -
  have h: "driver_starts stub_unreachable \<and> launches stub_unreachable \<and> opens_page stub_unreachable"
    by (simp add: stub_defs)
  from hardcoded_arguments [of stub_unreachable "fresh Map.empty",
      THEN conjunct2, THEN conjunct2] h
  show ?thesis by simp
qed


lemma files_after_context_tracker:
  "files_after verify_context_tracker w files =
     (if driver_starts w \<and> launches w \<and> opens_page w \<and> reachable w ''http://localhost:3000''
         \<and> writable w ''jules-scratch/verification/context_tracker.png''
      then files(''jules-scratch/verification/context_tracker.png''
                    \<mapsto> rendering w False (page_on_load w))
      else files)"
  by (simp add: files_after_def verify_context_tracker_fs fresh_def full_page_of_def)

lemma files_after_document_tagging:
  "files_after verify_document_tagging w files =
     (if driver_starts w \<and> launches w \<and> opens_page w
         \<and> reachable w ''http://localhost:3000''
         \<and> present w (page_on_load w) (TestId ''multimodal-input'')
         \<and> shown w (page_after_fill w) (TestId ''document-tagging'')
         \<and> present w (page_after_fill w) (VisibleText ''Monet'')
         \<and> present w (page_after_click w) (TestId ''multimodal-input'')
         \<and> page_after_click w (TestId ''multimodal-input'') = '' @Monet ''
         \<and> writable w ''jules-scratch/verification/verification.png''
      then files(''jules-scratch/verification/verification.png''
                    \<mapsto> rendering w False (page_after_click w))
      else files)"
  by (simp add: files_after_def verify_document_tagging_fs run_verification_fs fresh_def
        full_page_of_def)

text \<open>
  C7. Each script changes at most one file, the one at its fixed path
  (\<^verbatim>\<open>jules-scratch/verification/context_tracker.png\<close> for the context-tracker script,
  \<^verbatim>\<open>jules-scratch/verification/verification.png\<close> for the tagging script); a run that
  ends without an exception leaves there the image it took, whatever was there before;
  running a script twice in the same world leaves the same files as running it once, and
  two runs in any worlds add no path but the fixed one.
\<close>

theorem screenshot_file_idempotent:
  "(\<forall>p. p \<noteq> ''jules-scratch/verification/context_tracker.png'' \<longrightarrow>
       files_after verify_context_tracker w files p = files p)
   \<and> (fst (verify_context_tracker w (fresh files)) = None \<longrightarrow>
       files_after verify_context_tracker w files =
         files(''jules-scratch/verification/context_tracker.png''
                 \<mapsto> rendering w False (page_on_load w)))
   \<and> files_after verify_context_tracker w (files_after verify_context_tracker w files) =
       files_after verify_context_tracker w files
   \<and> dom (files_after verify_context_tracker w2 (files_after verify_context_tracker w1 files))
       \<subseteq> insert ''jules-scratch/verification/context_tracker.png'' (dom files)
   \<and> (\<forall>p. p \<noteq> ''jules-scratch/verification/verification.png'' \<longrightarrow>
       files_after verify_document_tagging w files p = files p)
   \<and> (fst (verify_document_tagging w (fresh files)) = None \<longrightarrow>
       files_after verify_document_tagging w files =
         files(''jules-scratch/verification/verification.png''
                 \<mapsto> rendering w False (page_after_click w)))
   \<and> files_after verify_document_tagging w (files_after verify_document_tagging w files) =
       files_after verify_document_tagging w files
   \<and> dom (files_after verify_document_tagging w2 (files_after verify_document_tagging w1 files))
       \<subseteq> insert ''jules-scratch/verification/verification.png'' (dom files)"
proof -
  have a: "\<forall>p. p \<noteq> ''jules-scratch/verification/context_tracker.png'' \<longrightarrow>
       files_after verify_context_tracker w files p = files p"
    by (simp add: files_after_context_tracker)
  have b: "fst (verify_context_tracker w (fresh files)) = None \<longrightarrow>
       files_after verify_context_tracker w files =
         files(''jules-scratch/verification/context_tracker.png''
                 \<mapsto> rendering w False (page_on_load w))"
    by (simp add: files_after_context_tracker verify_context_tracker_result)
  have c: "files_after verify_context_tracker w (files_after verify_context_tracker w files) =
       files_after verify_context_tracker w files"
    by (simp add: files_after_context_tracker)
  have d: "dom (files_after verify_context_tracker w2 (files_after verify_context_tracker w1 files))
       \<subseteq> insert ''jules-scratch/verification/context_tracker.png'' (dom files)"
    by (auto simp add: files_after_context_tracker split: if_splits)
  have e: "\<forall>p. p \<noteq> ''jules-scratch/verification/verification.png'' \<longrightarrow>
       files_after verify_document_tagging w files p = files p"
    by (simp add: files_after_document_tagging)
  have f: "fst (verify_document_tagging w (fresh files)) = None \<longrightarrow>
       files_after verify_document_tagging w files =
         files(''jules-scratch/verification/verification.png''
                 \<mapsto> rendering w False (page_after_click w))"
    by (simp add: files_after_document_tagging verify_document_tagging_result
          run_verification_result)
  have g: "files_after verify_document_tagging w (files_after verify_document_tagging w files) =
       files_after verify_document_tagging w files"
    by (simp add: files_after_document_tagging)
  have h: "dom (files_after verify_document_tagging w2 (files_after verify_document_tagging w1 files))
       \<subseteq> insert ''jules-scratch/verification/verification.png'' (dom files)"
    by (auto simp add: files_after_document_tagging split: if_splits)
  from a b c d e f g h show ?thesis by blast
qed

theorem screenshot_file_idempotent_witness:
  "fst (verify_context_tracker stub_app
         (fresh [''jules-scratch/verification/context_tracker.png'' \<mapsto> ''old''])) = None
   \<and> files_after verify_context_tracker stub_app
        [''jules-scratch/verification/context_tracker.png'' \<mapsto> ''old'']
      = [''jules-scratch/verification/context_tracker.png'' \<mapsto> ''viewport:'']
   \<and> fst (verify_document_tagging stub_app
         (fresh [''jules-scratch/verification/verification.png'' \<mapsto> ''old''])) = None
   \<and> files_after verify_document_tagging stub_app
        [''jules-scratch/verification/verification.png'' \<mapsto> ''old'']
      = [''jules-scratch/verification/verification.png'' \<mapsto> ''viewport: @Monet '']"
proof -
  have h1: "fst (verify_context_tracker stub_app
         (fresh [''jules-scratch/verification/context_tracker.png'' \<mapsto> ''old''])) = None"
    by (simp add: verify_context_tracker_result stub_defs)
  have h2: "fst (verify_document_tagging stub_app
         (fresh [''jules-scratch/verification/verification.png'' \<mapsto> ''old''])) = None"
    by (simp add: verify_document_tagging_result run_verification_result stub_defs)
  have r1: "rendering stub_app False (page_on_load stub_app) = ''viewport:''"
    and r2: "rendering stub_app False (page_after_click stub_app) = ''viewport: @Monet ''"
    by (simp_all add: stub_defs)
  from screenshot_file_idempotent [of stub_app
      "[''jules-scratch/verification/context_tracker.png'' \<mapsto> ''old'']",
      THEN conjunct2, THEN conjunct1] h1 r1
  have a: "files_after verify_context_tracker stub_app
        [''jules-scratch/verification/context_tracker.png'' \<mapsto> ''old'']
      = [''jules-scratch/verification/context_tracker.png'' \<mapsto> ''viewport:'']"
    by simp
  from screenshot_file_idempotent [of stub_app
      "[''jules-scratch/verification/verification.png'' \<mapsto> ''old'']",
      THEN conjunct2, THEN conjunct2, THEN conjunct2, THEN conjunct2, THEN conjunct2, THEN conjunct1]
    h2 r2
  have b: "files_after verify_document_tagging stub_app
        [''jules-scratch/verification/verification.png'' \<mapsto> ''old'']
      = [''jules-scratch/verification/verification.png'' \<mapsto> ''viewport: @Monet '']"
    by simp
  from h1 h2 a b show ?thesis by blast
qed



lemma seq_append:
  "seq (xs @ ys) s = (case seq xs s of (None, s') \<Rightarrow> seq ys s' | (Some e, s') \<Rightarrow> (Some e, s'))"
  by (induction xs arbitrary: s) (auto split: prod.splits option.splits)

lemma head_result:
  "fst (seq [print_stderr m0,
             seq [print_stderr m1, goto w url, print_stderr m2],
             seq [print_stderr m3, fill w inp txt, print_stderr m4]] s) =
     (if \<not> reachable w url then Some (NavigationError url)
      else if \<not> present w (page_on_load w) inp then Some (ElementNotFound inp)
      else None)"
  by (simp add: lib_defs)

lemma head_page:
  "reachable w url \<Longrightarrow> present w (page_on_load w) inp \<Longrightarrow>
   page (snd (seq [print_stderr m0,
             seq [print_stderr m1, goto w url, print_stderr m2],
             seq [print_stderr m3, fill w inp txt, print_stderr m4]] s)) = (page_on_load w)(inp := txt)"
  by (simp add: lib_defs)

lemma run_verification_split:
  "run_verification w s =
     seq ([print_stderr ''Starting verification script...'', arrange w,
           act_fill w (get_by_test_id ''multimodal-input'')]
          @ [assert_visible w, tag_document w (get_by_test_id ''multimodal-input'') ''Monet'',
             take_screenshot w, print_stderr ''Verification script finished successfully.'']) s"
  by (simp only: run_verification_def Let_def append.simps)

text \<open>
  C9. In \<^verbatim>\<open>run_verification\<close>, once navigation has succeeded, the next call fills the
  element with test identifier \<^verbatim>\<open>multimodal-input\<close> with the text \<^verbatim>\<open>@\<close>. When no
  such element resolves, the call raises the element-resolution exception and it is the
  last call. When it resolves, the page afterwards is the page as loaded with the value
  of the input replaced by \<^verbatim>\<open>@\<close> (whatever it held), and the remaining steps run from
  that state.
\<close>

theorem input_filled_with_at:
  assumes "reachable w ''http://localhost:3000''"
  shows "map fst (take 2 (performed (run_verification w) s)) =
           [Goto ''http://localhost:3000'', Fill (TestId ''multimodal-input'') ''@'']
       \<and> (\<not> present w (page_on_load w) (TestId ''multimodal-input'') \<longrightarrow>
            fst (run_verification w s) = Some (ElementNotFound (TestId ''multimodal-input''))
            \<and> performed (run_verification w) s =
                [(Goto ''http://localhost:3000'', None),
                 (Fill (TestId ''multimodal-input'') ''@'',
                  Some (ElementNotFound (TestId ''multimodal-input'')))])
       \<and> (present w (page_on_load w) (TestId ''multimodal-input'') \<longrightarrow>
            page (snd (seq [print_stderr ''Starting verification script...'', arrange w,
                            act_fill w (get_by_test_id ''multimodal-input'')] s))
              = (page_on_load w)(TestId ''multimodal-input'' := ''@'')
            \<and> page (snd (seq [print_stderr ''Starting verification script...'', arrange w,
                            act_fill w (get_by_test_id ''multimodal-input'')] s))
                 (TestId ''multimodal-input'') = ''@''
            \<and> run_verification w s =
                seq [assert_visible w, tag_document w (get_by_test_id ''multimodal-input'') ''Monet'',
                     take_screenshot w, print_stderr ''Verification script finished successfully.'']
                  (snd (seq [print_stderr ''Starting verification script...'', arrange w,
                             act_fill w (get_by_test_id ''multimodal-input'')] s)))"
proof -
  let ?head = "seq [print_stderr ''Starting verification script...'', arrange w,
                    act_fill w (get_by_test_id ''multimodal-input'')]"
  have a: "map fst (take 2 (performed (run_verification w) s)) =
           [Goto ''http://localhost:3000'', Fill (TestId ''multimodal-input'') ''@'']"
    using assms by (simp add: performed_run_verification)
  have b: "\<not> present w (page_on_load w) (TestId ''multimodal-input'') \<longrightarrow>
            fst (run_verification w s) = Some (ElementNotFound (TestId ''multimodal-input''))
            \<and> performed (run_verification w) s =
                [(Goto ''http://localhost:3000'', None),
                 (Fill (TestId ''multimodal-input'') ''@'',
                  Some (ElementNotFound (TestId ''multimodal-input'')))]"
    using assms by (simp add: performed_run_verification run_verification_result)
  have c: "present w (page_on_load w) (TestId ''multimodal-input'') \<longrightarrow>
            page (snd (?head s)) = (page_on_load w)(TestId ''multimodal-input'' := ''@'')
            \<and> page (snd (?head s)) (TestId ''multimodal-input'') = ''@''
            \<and> run_verification w s =
                seq [assert_visible w, tag_document w (get_by_test_id ''multimodal-input'') ''Monet'',
                     take_screenshot w, print_stderr ''Verification script finished successfully.'']
                  (snd (?head s))"
  proof
    assume p: "present w (page_on_load w) (TestId ''multimodal-input'')"
    have r: "fst (?head s) = None"
      unfolding arrange_def act_fill_def get_by_test_id_def
      using assms p by (simp only: head_result if_False if_True not_True_eq_False simp_thms)
    have pg: "page (snd (?head s)) = (page_on_load w)(TestId ''multimodal-input'' := ''@'')"
      unfolding arrange_def act_fill_def get_by_test_id_def
      using assms p by (rule head_page)
    have "run_verification w s =
            seq [assert_visible w, tag_document w (get_by_test_id ''multimodal-input'') ''Monet'',
                 take_screenshot w, print_stderr ''Verification script finished successfully.'']
              (snd (?head s))"
      using r unfolding run_verification_split seq_append
      by (cases "?head s") simp
    with pg show "page (snd (?head s)) = (page_on_load w)(TestId ''multimodal-input'' := ''@'')
            \<and> page (snd (?head s)) (TestId ''multimodal-input'') = ''@''
            \<and> run_verification w s =
                seq [assert_visible w, tag_document w (get_by_test_id ''multimodal-input'') ''Monet'',
                     take_screenshot w, print_stderr ''Verification script finished successfully.'']
                  (snd (?head s))"
      by simp
  qed
  from a b c show ?thesis by blast
qed

theorem input_filled_with_at_witness:
  "reachable stub_prefilled ''http://localhost:3000''
   \<and> present stub_prefilled (page_on_load stub_prefilled) (TestId ''multimodal-input'')
   \<and> page_on_load stub_prefilled (TestId ''multimodal-input'') = ''draft''
   \<and> page (snd (seq [print_stderr ''Starting verification script...'', arrange stub_prefilled,
                     act_fill stub_prefilled (get_by_test_id ''multimodal-input'')]
                  (fresh Map.empty)))
        (TestId ''multimodal-input'') = ''@''"
proof -
  have h1: "reachable stub_prefilled ''http://localhost:3000''"
    and h2: "present stub_prefilled (page_on_load stub_prefilled) (TestId ''multimodal-input'')"
    and h3: "page_on_load stub_prefilled (TestId ''multimodal-input'') = ''draft''"
    by (simp_all add: stub_defs)
  from input_filled_with_at [OF h1, of "fresh Map.empty", THEN conjunct2, THEN conjunct2] h2
  have "page (snd (seq [print_stderr ''Starting verification script...'', arrange stub_prefilled,
                     act_fill stub_prefilled (get_by_test_id ''multimodal-input'')]
                  (fresh Map.empty)))
        (TestId ''multimodal-input'') = ''@''"
    by blast
  with h1 h2 h3 show ?thesis by blast
qed


lemma tag_document_performed:
  "map fst (performed (seq [seq [print_stderr m7, click w mo, print_stderr m8],
                            seq [print_stderr m9, to_have_value w inp expected, print_stderr m10]]) s) =
     (if present w (page s) mo then [Click mo, ExpectValue inp expected] else [Click mo])"
  by (simp add: performed_def lib_defs)

lemma tag_document_value:
  "fst (seq [seq [print_stderr m7, click w mo, print_stderr m8],
             seq [print_stderr m9, to_have_value w inp expected, print_stderr m10]] s) = None \<longrightarrow>
   page (snd (seq [seq [print_stderr m7, click w mo, print_stderr m8],
             seq [print_stderr m9, to_have_value w inp expected, print_stderr m10]] s)) inp = expected"
  by (simp add: lib_defs)

text \<open>
  C10. Steps 4 and 5 of \<^verbatim>\<open>run_verification\<close> use one string, the value of
  \<^verbatim>\<open>document_to_select\<close>: for every document name \<open>d\<close> they click the element with the
  text \<open>d\<close> and then assert that the input holds a space, \<^verbatim>\<open>@\<close>, \<open>d\<close> and a space, and
  when both return the input holds exactly that; \<^verbatim>\<open>run_verification\<close> runs them with
  the single literal \<^verbatim>\<open>Monet\<close>.
\<close>

theorem one_document_name:
  "map fst (performed (tag_document w chat_input d) s) =
     (if present w (page s) (VisibleText d)
      then [Click (VisibleText d), ExpectValue chat_input ('' @'' @ d @ '' '')]
      else [Click (VisibleText d)])
   \<and> (fst (tag_document w chat_input d s) = None \<longrightarrow>
        page (snd (tag_document w chat_input d s)) chat_input = '' @'' @ d @ '' '')
   \<and> run_verification w =
       seq [print_stderr ''Starting verification script...'', arrange w,
            act_fill w (get_by_test_id ''multimodal-input''), assert_visible w,
            tag_document w (get_by_test_id ''multimodal-input'') ''Monet'',
            take_screenshot w, print_stderr ''Verification script finished successfully.'']"
proof -
  have a: "map fst (performed (tag_document w chat_input d) s) =
     (if present w (page s) (VisibleText d)
      then [Click (VisibleText d), ExpectValue chat_input ('' @'' @ d @ '' '')]
      else [Click (VisibleText d)])"
    unfolding tag_document_def act_click_def assert_value_def get_by_text_def
    by (rule tag_document_performed)
  have b: "fst (tag_document w chat_input d s) = None \<longrightarrow>
        page (snd (tag_document w chat_input d s)) chat_input = '' @'' @ d @ '' ''"
    unfolding tag_document_def act_click_def assert_value_def get_by_text_def
    by (rule tag_document_value)
  have c: "run_verification w =
       seq [print_stderr ''Starting verification script...'', arrange w,
            act_fill w (get_by_test_id ''multimodal-input''), assert_visible w,
            tag_document w (get_by_test_id ''multimodal-input'') ''Monet'',
            take_screenshot w, print_stderr ''Verification script finished successfully.'']"
    by (simp only: run_verification_def Let_def)
  from a b c show ?thesis by blast
qed

theorem one_document_name_witness:
  "fst (tag_document stub_any_document (TestId ''multimodal-input'') ''Picasso'' (fresh Map.empty)) = None
   \<and> map fst (performed (tag_document stub_any_document (TestId ''multimodal-input'') ''Picasso'')
                (fresh Map.empty)) =
       [Click (VisibleText ''Picasso''), ExpectValue (TestId ''multimodal-input'') '' @Picasso '']
   \<and> page (snd (tag_document stub_any_document (TestId ''multimodal-input'') ''Picasso''
                  (fresh Map.empty))) (TestId ''multimodal-input'') = '' @Picasso ''"
proof -
  have h: "fst (tag_document stub_any_document (TestId ''multimodal-input'') ''Picasso''
                 (fresh Map.empty)) = None"
    by (simp add: tag_document_def act_click_def assert_value_def get_by_text_def lib_defs
          stub_any_document_def stub_app_def fresh_def)
  have p: "present stub_any_document (page (fresh Map.empty)) (VisibleText ''Picasso'')"
    by (simp add: stub_any_document_def stub_app_def)
  note t = one_document_name [of stub_any_document "TestId ''multimodal-input''" "''Picasso''"
      "fresh Map.empty"]
  from t [THEN conjunct1] p
  have a: "map fst (performed (tag_document stub_any_document (TestId ''multimodal-input'') ''Picasso'')
                (fresh Map.empty)) =
       [Click (VisibleText ''Picasso''), ExpectValue (TestId ''multimodal-input'') '' @Picasso '']"
    by simp
  from t [THEN conjunct2, THEN conjunct1] h
  have b: "page (snd (tag_document stub_any_document (TestId ''multimodal-input'') ''Picasso''
                  (fresh Map.empty))) (TestId ''multimodal-input'') = '' @Picasso ''"
    by simp
  from h a b show ?thesis by blast
qed

section \<open>Further properties\<close>

text \<open>
  The context-tracker script calls \<^verbatim>\<open>browser.close()\<close> exactly on the runs on which
  its screenshot was taken: when an earlier call raised, the browser is shut down by
  leaving the \<^verbatim>\<open>with sync_playwright()\<close> block alone.
\<close>

theorem tracker_closes_only_on_success:
  "(Close \<in> fst ` set (performed (verify_context_tracker w) s))
     = ((Screenshot ''jules-scratch/verification/context_tracker.png'' None, None)
          \<in> set (performed (verify_context_tracker w) s))"
  by (simp add: verify_context_tracker_performed)

theorem tracker_closes_only_on_success_witness:
  "performed (verify_context_tracker stub_unreachable) (fresh Map.empty) =
     [(Start, None), (Launch None, None), (NewPage, None),
      (Goto ''http://localhost:3000'', Some (NavigationError ''http://localhost:3000'')),
      (Stop, None)]
   \<and> Close \<notin> fst ` set (performed (verify_context_tracker stub_unreachable) (fresh Map.empty))"
proof -
  have p: "performed (verify_context_tracker stub_unreachable) (fresh Map.empty) =
     [(Start, None), (Launch None, None), (NewPage, None),
      (Goto ''http://localhost:3000'', Some (NavigationError ''http://localhost:3000'')),
      (Stop, None)]"
    by (simp add: verify_context_tracker_performed stub_defs)
  then have "(Screenshot ''jules-scratch/verification/context_tracker.png'' None, None)
      \<notin> set (performed (verify_context_tracker stub_unreachable) (fresh Map.empty))"
    by simp
  with tracker_closes_only_on_success [of stub_unreachable "fresh Map.empty"] p
  show ?thesis by blast
qed

end
